theory Spec2Isabelle
  imports Complex_Main "HOL-Library.Word"
begin

section \<open>The Tab of the terminal application (src/cascadia/TerminalApp/Tab.cpp)\<close>

text \<open>
  A Tab owns a tree of panes, tracks the active pane, derives its title from the active
  pane's control or from a runtime override, drives the rename text box and manages an
  optional tab colour. The methods of \<^verbatim>\<open>Tab.cpp\<close> are embedded as functions that take
  the state and return the new one. A method that dereferences a null control ends in
  an error value. A coroutine that suspends (\<^verbatim>\<open>co_await resume_foreground\<close>) or a
  lambda handed to \<^verbatim>\<open>RunAsync\<close> is split at the suspension point: the first half
  appends a continuation to the dispatcher's queue, and \<open>resume\<close> runs the second half.
\<close>

subsection \<open>External collaborators\<close>

type_synonym GUID = nat

text \<open>A \<^verbatim>\<open>std::shared_ptr<Pane>\<close> is the identity of the Pane object it points to.\<close>
type_synonym pane_ref = nat

text \<open>A non-null \<^verbatim>\<open>TermControl\<close> reference; \<open>None\<close> of \<open>control_ref option\<close> is \<^verbatim>\<open>nullptr\<close>.\<close>
type_synonym control_ref = nat

text \<open>
  A C++ \<^verbatim>\<open>int\<close>: 32 bits, two's complement (read with \<open>sint\<close>); the sum of two of
  them wraps around.
\<close>
type_synonym int32 = "32 word"

text \<open>
  Modelled from the spec: the session collaborator (TermControl, not part of Tab.cpp)
  offers \<^verbatim>\<open>GetTitle()\<close>, \<^verbatim>\<open>GetScrollOffset()/SetScrollOffset(offset)\<close> and a
  one-shot \<^verbatim>\<open>SessionReady\<close> notification; its state is the title, the scroll offset
  and whether it has completed its startup.
\<close>
record TermControl =
  controlTitle :: string
  scrollOffset :: int32
  initialized :: bool

text \<open>\<^verbatim>\<open>winrt::Windows::UI::Color\<close>: four 8-bit channels A, R, G, B.\<close>
record Color =
  Color_A :: "8 word"
  Color_R :: "8 word"
  Color_G :: "8 word"
  Color_B :: "8 word"

definition Colors_Black :: Color where
  "Colors_Black = \<lparr>Color_A = 255, Color_R = 0, Color_G = 0, Color_B = 0\<rparr>"

definition Colors_White :: Color where
  "Colors_White = \<lparr>Color_A = 255, Color_R = 255, Color_G = 255, Color_B = 255\<rparr>"

text \<open>
  \<^verbatim>\<open>ColorHelper::IsBrightColor\<close> and \<^verbatim>\<open>ColorHelper::GetAccentColor\<close> are declared in
  ColorHelper.h, which is not part of Tab.cpp: they are parameters of the model.
\<close>
record ColorHelper =
  IsBrightColor :: "Color \<Rightarrow> bool"
  GetAccentColor :: "Color \<Rightarrow> Color"

text \<open>
  The icon built by \<^verbatim>\<open>GetColoredIcon<BitmapIconSource>(path)\<close> (Utils.h), identified by
  the path it is loaded from.
\<close>
datatype IconSource = BitmapIconSource string

text \<open>
  The \<^verbatim>\<open>Header\<close> of the TabViewItem: a \<^verbatim>\<open>TextBox\<close> with its \<^verbatim>\<open>Text\<close>, or any other
  content (for which \<^verbatim>\<open>try_as<Controls::TextBox>()\<close> is null).
\<close>
datatype Header = Content | TextBox string

datatype VirtualKey = Enter | Escape | OtherKey nat

subsection \<open>The pane tree\<close>

datatype SplitState = Vertical | Horizontal

text \<open>
  Modelled from the spec: the Pane class (Pane.cpp is not part of Tab.cpp). A PaneNode
  is a tagged union. A Leaf holds a session handle, a profile identifier and an
  \<open>active\<close> flag; a Split holds an orientation, a split ratio and two children. Every
  node carries the identity of its Pane object, so that the Tab's \<^verbatim>\<open>_activePane\<close> can
  refer into the tree. (The leaf's cached title is not read by Tab.cpp and is left out.)
\<close>
datatype Pane =
    Leaf pane_ref control_ref GUID bool
  | Parent pane_ref SplitState rat Pane Pane

fun max_ref :: "Pane \<Rightarrow> nat" where
  "max_ref (Leaf i c g a) = i"
| "max_ref (Parent i st r p q) = max i (max (max_ref p) (max_ref q))"

text \<open>Dereferencing a pane reference: the node of the tree with that identity.\<close>
fun lookup :: "pane_ref \<Rightarrow> Pane \<Rightarrow> Pane option" where
  "lookup x (Leaf i c g a) = (if i = x then Some (Leaf i c g a) else None)"
| "lookup x (Parent i st r p q) =
     (if i = x then Some (Parent i st r p q)
      else case lookup x p of Some n \<Rightarrow> Some n | None \<Rightarrow> lookup x q)"

text \<open>
  Modelled from the spec: \<^verbatim>\<open>Pane::GetTerminalControl\<close>; only a Leaf hosts a session.
\<close>
fun GetTerminalControl :: "Pane \<Rightarrow> control_ref option" where
  "GetTerminalControl (Leaf i c g a) = Some c"
| "GetTerminalControl (Parent i st r p q) = None"

text \<open>
  Modelled from the spec: \<^verbatim>\<open>Pane::ClearActive\<close> clears the \<open>active\<close> flag on every Leaf
  in the tree (a full tree walk).
\<close>
fun ClearActive :: "Pane \<Rightarrow> Pane" where
  "ClearActive (Leaf i c g a) = Leaf i c g False"
| "ClearActive (Parent i st r p q) = Parent i st r (ClearActive p) (ClearActive q)"

text \<open>
  Modelled from the spec: \<^verbatim>\<open>Pane::SetActive\<close>, called on the pane \<open>x\<close>, sets the
  \<open>active\<close> flag of that leaf.
\<close>
fun SetActive :: "pane_ref \<Rightarrow> Pane \<Rightarrow> Pane" where
  "SetActive x (Leaf i c g a) = (if i = x then Leaf i c g True else Leaf i c g a)"
| "SetActive x (Parent i st r p q) = Parent i st r (SetActive x p) (SetActive x q)"

fun split_leaf ::
  "pane_ref \<Rightarrow> SplitState \<Rightarrow> GUID \<Rightarrow> control_ref \<Rightarrow> pane_ref \<Rightarrow> pane_ref \<Rightarrow> Pane \<Rightarrow> Pane"
where
  "split_leaf x splitType profile control f s (Leaf i c g a) =
     (if i = x
      then Parent i splitType (1 / 2) (Leaf f c g a) (Leaf s control profile False)
      else Leaf i c g a)"
| "split_leaf x splitType profile control f s (Parent i st r p q) =
     Parent i st r (split_leaf x splitType profile control f s p)
                   (split_leaf x splitType profile control f s q)"

datatype error = NullControl | NotALeaf

text \<open>
  Modelled from the spec: \<^verbatim>\<open>Pane::Split\<close>, called on the pane \<open>x\<close> of the tree. The
  pane must be a Leaf (splitting a Split node is not defined). The Leaf is replaced in
  place with a Split node whose children are a Leaf holding the original session and a
  Leaf holding the new session and profile; the ratio is 0.5. The two new leaves are
  new Pane objects, so their identities are fresh. Returns the tree and the references
  to both new leaves.
\<close>
definition Pane_Split ::
  "pane_ref \<Rightarrow> SplitState \<Rightarrow> GUID \<Rightarrow> control_ref \<Rightarrow> Pane \<Rightarrow> error + (Pane \<times> pane_ref \<times> pane_ref)"
where
  "Pane_Split x splitType profile control tree =
     (case lookup x tree of
        Some (Leaf i c g a) \<Rightarrow>
          (let first = Suc (max_ref tree); second = Suc first
           in Inr (split_leaf x splitType profile control first second tree, first, second))
      | Some (Parent i st r p q) \<Rightarrow> Inl NotALeaf
      | None \<Rightarrow> Inl NotALeaf)"

subsection \<open>The state of a Tab\<close>

text \<open>What a suspended operation does when the dispatcher resumes it.\<close>
datatype continuation =
    UpdateIcon_resume
  | UpdateTitle_resume
  | Scroll_resume control_ref int32
  | SetTabColor_lambda Color

text \<open>
  The calls a Tab makes on its observers and on the presentation layer, in the order
  they happen: its own events (\<^verbatim>\<open>DEFINE_EVENT\<close>), \<^verbatim>\<open>TermControl::Focus\<close> and
  \<^verbatim>\<open>VisualStateManager::GoToState\<close>.
\<close>
datatype effect =
    ActivePaneChanged
  | ColorSelected Color
  | ColorCleared
  | ControlFocus control_ref
  | GoToState string

text \<open>
  The members of the Tab that Tab.cpp reads and writes, with the objects it shares
  with its collaborators: the TabViewItem (its Header and its Resources dictionary),
  the controls, the dispatcher queue and the trace of effects. \<open>alive\<close> says that
  the Tab object still exists, i.e. that \<^verbatim>\<open>weakThis.get()\<close> is not null. The
  TabViewItem is the one bound by \<^verbatim>\<open>_OnTabItemLoaded\<close>. \<open>Title\<close> and
  \<open>IconSource\<close> are the Tab's observable properties; their setters store the value.
\<close>
record Tab =
  alive :: bool
  rootPane :: Pane
  activePane :: pane_ref
  focused :: bool
  controlInitialized :: bool
  lastIconPath :: string
  runtimeTabText :: string
  inRename :: bool
  tabColor :: "Color option"
  Title :: string
  IconSource :: "IconSource option"
  tabViewItem_Header :: Header
  tabViewItem_Resources :: "string \<rightharpoonup> Color"
  controls :: "control_ref \<Rightarrow> TermControl"
  pending :: "continuation list"
  trace :: "effect list"

text \<open>
  \<^verbatim>\<open>Tab::Tab(profile, control)\<close>: the root pane is a new leaf, marked active, and it
  is the active pane. The members the constructor does not assign start out false,
  empty or absent.
\<close>
definition Tab_ctor :: "GUID \<Rightarrow> control_ref \<Rightarrow> (control_ref \<Rightarrow> TermControl) \<Rightarrow> Tab" where
  "Tab_ctor profile control cs =
     \<lparr>alive = True,
      rootPane = Leaf 0 control profile True,
      activePane = 0,
      focused = False,
      controlInitialized = False,
      lastIconPath = [],
      runtimeTabText = [],
      inRename = False,
      tabColor = None,
      Title = [],
      IconSource = None,
      tabViewItem_Header = Content,
      tabViewItem_Resources = Map.empty,
      controls = cs,
      pending = [],
      trace = []\<rparr>"

subsection \<open>Focus\<close>

text \<open>
  \<^verbatim>\<open>Tab::GetActiveTerminalControl\<close>: \<^verbatim>\<open>_activePane->GetTerminalControl()\<close>. A
  reference that names no pane of the tree yields no control.
\<close>
definition GetActiveTerminalControl :: "Tab \<Rightarrow> control_ref option" where
  "GetActiveTerminalControl t =
     (case lookup (activePane t) (rootPane t) of
        Some p \<Rightarrow> GetTerminalControl p
      | None \<Rightarrow> None)"

text \<open>\<^verbatim>\<open>Tab::_Focus\<close>\<close>
definition Focus :: "Tab \<Rightarrow> Tab" where
  "Focus t =
     (if \<not> controlInitialized t then t
      else
        let t1 = t\<lparr>focused := True\<rparr>
        in case GetActiveTerminalControl t1 of
             Some lastFocusedControl \<Rightarrow> t1\<lparr>trace := trace t1 @ [ControlFocus lastFocusedControl]\<rparr>
           | None \<Rightarrow> t1)"

text \<open>\<^verbatim>\<open>Tab::SetFocused\<close>\<close>
definition SetFocused :: "bool \<Rightarrow> Tab \<Rightarrow> Tab" where
  "SetFocused f t =
     (let t1 = t\<lparr>focused := f\<rparr>
      in if focused t1 then Focus t1 else t1)"

text \<open>The \<^verbatim>\<open>TerminalInitialized\<close> handler of \<^verbatim>\<open>Tab::_AttachEventHandlersToControl\<close>.\<close>
definition TerminalInitialized_handler :: "Tab \<Rightarrow> Tab" where
  "TerminalInitialized_handler t =
     (if alive t then Focus (t\<lparr>controlInitialized := True\<rparr>) else t)"

text \<open>
  The control \<open>c\<close> completes its startup and raises \<^verbatim>\<open>TerminalInitialized\<close>, which
  runs the handler that \<^verbatim>\<open>_AttachEventHandlersToControl\<close> registered on it.
\<close>
definition TerminalInitialized_event :: "control_ref \<Rightarrow> Tab \<Rightarrow> Tab" where
  "TerminalInitialized_event c t =
     TerminalInitialized_handler
       (t\<lparr>controls := (controls t)(c := (controls t c)\<lparr>initialized := True\<rparr>)\<rparr>)"

subsection \<open>Title, header and rename box\<close>

text \<open>\<^verbatim>\<open>Tab::GetActiveTitle\<close>\<close>
definition GetActiveTitle :: "Tab \<Rightarrow> string" where
  "GetActiveTitle t =
     (if runtimeTabText t \<noteq> [] then runtimeTabText t
      else case GetActiveTerminalControl t of
             Some lastFocusedControl \<Rightarrow> controlTitle (controls t lastFocusedControl)
           | None \<Rightarrow> [])"

text \<open>
  \<^verbatim>\<open>Tab::_ConstructTabRenameBox\<close>: nothing when the header is a text box already;
  otherwise a new text box holding \<open>tabText\<close> becomes the header. (Of its three
  event handlers, \<^verbatim>\<open>LostFocus\<close> and \<^verbatim>\<open>KeyUp\<close> are the functions
  \<open>LostFocus_handler\<close> and \<open>KeyUp_handler\<close> below; \<^verbatim>\<open>LayoutUpdated\<close> only moves
  the keyboard focus into the box.)
\<close>
definition ConstructTabRenameBox :: "string \<Rightarrow> Tab \<Rightarrow> Tab" where
  "ConstructTabRenameBox tabText t =
     (case tabViewItem_Header t of
        TextBox txt \<Rightarrow> t
      | Content \<Rightarrow> t\<lparr>tabViewItem_Header := TextBox tabText\<rparr>)"

text \<open>\<^verbatim>\<open>Tab::_UpdateTabHeader\<close>\<close>
definition UpdateTabHeader :: "Tab \<Rightarrow> Tab" where
  "UpdateTabHeader t =
     (let tabText = GetActiveTitle t
      in if \<not> inRename t then t\<lparr>Title := tabText\<rparr>
         else ConstructTabRenameBox tabText t)"

text \<open>
  \<^verbatim>\<open>co_await winrt::resume_foreground(control.Dispatcher())\<close>: a null control cannot be
  asked for its dispatcher; otherwise the rest of the coroutine is queued.
\<close>
definition resume_foreground :: "control_ref option \<Rightarrow> continuation \<Rightarrow> Tab \<Rightarrow> error + Tab" where
  "resume_foreground control k t =
     (case control of
        None \<Rightarrow> Inl NullControl
      | Some c \<Rightarrow> Inr (t\<lparr>pending := pending t @ [k]\<rparr>))"

text \<open>\<^verbatim>\<open>Tab::_UpdateTitle\<close>, up to its suspension.\<close>
definition UpdateTitle :: "Tab \<Rightarrow> error + Tab" where
  "UpdateTitle t = resume_foreground (GetActiveTerminalControl t) UpdateTitle_resume t"

text \<open>\<^verbatim>\<open>Tab::UpdateIcon\<close>, up to its suspension.\<close>
definition UpdateIcon :: "string \<Rightarrow> Tab \<Rightarrow> error + Tab" where
  "UpdateIcon iconPath t =
     (if iconPath = lastIconPath t then Inr t
      else
        let t1 = t\<lparr>lastIconPath := iconPath\<rparr>
        in resume_foreground (GetActiveTerminalControl t1) UpdateIcon_resume t1)"

text \<open>\<^verbatim>\<open>Tab::Scroll\<close>, up to its suspension; the coroutine keeps \<open>control\<close> and \<open>delta\<close>.\<close>
definition Scroll :: "int32 \<Rightarrow> Tab \<Rightarrow> error + Tab" where
  "Scroll delta t =
     (case GetActiveTerminalControl t of
        None \<Rightarrow> Inl NullControl
      | Some control \<Rightarrow> resume_foreground (Some control) (Scroll_resume control delta) t)"

text \<open>The \<^verbatim>\<open>TitleChanged\<close> handler of \<^verbatim>\<open>Tab::_AttachEventHandlersToControl\<close>.\<close>
definition TitleChanged_handler :: "Tab \<Rightarrow> error + Tab" where
  "TitleChanged_handler t = (if alive t then UpdateTitle t else Inr t)"

text \<open>
  The \<^verbatim>\<open>LostFocus\<close> handler of the rename box. The sender is the text box that
  \<^verbatim>\<open>_ConstructTabRenameBox\<close> made the header.
\<close>
definition LostFocus_handler :: "Tab \<Rightarrow> error + Tab" where
  "LostFocus_handler t =
     (case tabViewItem_Header t of
        TextBox txt \<Rightarrow>
          (if alive t then UpdateTitle (t\<lparr>runtimeTabText := txt, inRename := False\<rparr>)
           else Inr t)
      | Content \<Rightarrow> Inr t)"

text \<open>
  The \<^verbatim>\<open>KeyUp\<close> handler of the rename box: Enter stores the text and falls through
  to the Escape case, which writes the runtime text back into the box, leaves the
  rename and updates the title; any other key does nothing. (Marking the key event as
  handled changes nothing of the Tab.)
\<close>
definition KeyUp_Escape :: "Tab \<Rightarrow> error + Tab" where
  "KeyUp_Escape t =
     UpdateTitle (t\<lparr>tabViewItem_Header := TextBox (runtimeTabText t), inRename := False\<rparr>)"

definition KeyUp_handler :: "VirtualKey \<Rightarrow> Tab \<Rightarrow> error + Tab" where
  "KeyUp_handler key t =
     (case tabViewItem_Header t of
        TextBox txt \<Rightarrow>
          (if alive t then
             (case key of
                Enter \<Rightarrow> KeyUp_Escape (t\<lparr>runtimeTabText := txt\<rparr>)
              | Escape \<Rightarrow> KeyUp_Escape t
              | OtherKey n \<Rightarrow> Inr t)
           else Inr t)
      | Content \<Rightarrow> Inr t)"

text \<open>\<^verbatim>\<open>Tab::_OnRenameTabMenuItemClick\<close>\<close>
definition OnRenameTabMenuItemClick :: "Tab \<Rightarrow> Tab" where
  "OnRenameTabMenuItemClick t = UpdateTabHeader (t\<lparr>inRename := True\<rparr>)"

subsection \<open>Active pane and split\<close>

text \<open>\<^verbatim>\<open>Tab::_UpdateActivePane\<close>\<close>
definition UpdateActivePane :: "pane_ref \<Rightarrow> Tab \<Rightarrow> error + Tab" where
  "UpdateActivePane pane t =
     (let t1 = t\<lparr>rootPane := ClearActive (rootPane t)\<rparr>;
          t2 = t1\<lparr>activePane := pane\<rparr>;
          t3 = t2\<lparr>rootPane := SetActive (activePane t2) (rootPane t2)\<rparr>
      in case UpdateTitle t3 of
           Inl e \<Rightarrow> Inl e
         | Inr t4 \<Rightarrow> Inr (t4\<lparr>trace := trace t4 @ [ActivePaneChanged]\<rparr>))"

text \<open>The \<^verbatim>\<open>GotFocus\<close> handler of \<^verbatim>\<open>Tab::_AttachEventHandlersToPane\<close>.\<close>
definition GotFocus_handler :: "pane_ref \<Rightarrow> Tab \<Rightarrow> error + Tab" where
  "GotFocus_handler sender t =
     (if alive t \<and> sender \<noteq> activePane t then UpdateActivePane sender t else Inr t)"

text \<open>
  \<^verbatim>\<open>Tab::SplitPane\<close>. Attaching the event handlers to the new control and to the two
  new panes changes no member of the Tab: the handlers are the functions of this theory.
\<close>
definition SplitPane :: "SplitState \<Rightarrow> GUID \<Rightarrow> control_ref \<Rightarrow> Tab \<Rightarrow> error + Tab" where
  "SplitPane splitType profile control t =
     (case Pane_Split (activePane t) splitType profile control (rootPane t) of
        Inl e \<Rightarrow> Inl e
      | Inr (tree, first, second) \<Rightarrow>
          (let t1 = t\<lparr>rootPane := tree, activePane := first\<rparr>
           in UpdateActivePane second t1))"

subsection \<open>Tab colour\<close>

text \<open>\<^verbatim>\<open>Tab::_RefreshVisualState\<close>\<close>
definition RefreshVisualState :: "Tab \<Rightarrow> Tab" where
  "RefreshVisualState t =
     (if focused t
      then t\<lparr>trace := trace t @ [GoToState ''Normal'', GoToState ''Selected'']\<rparr>
      else t\<lparr>trace := trace t @ [GoToState ''Selected'', GoToState ''Normal'']\<rparr>)"

text \<open>\<^verbatim>\<open>Tab::_SetTabColor\<close>: the work is handed to the dispatcher of the TabViewItem.\<close>
definition SetTabColor :: "Color \<Rightarrow> Tab \<Rightarrow> Tab" where
  "SetTabColor color t = t\<lparr>pending := pending t @ [SetTabColor_lambda color]\<rparr>"

text \<open>The lambda of \<^verbatim>\<open>Tab::_SetTabColor\<close>, run by the dispatcher.\<close>
definition SetTabColor_run :: "ColorHelper \<Rightarrow> Color \<Rightarrow> Tab \<Rightarrow> Tab" where
  "SetTabColor_run H color t =
     (if \<not> alive t then t
      else
        let fontBrush = (if IsBrightColor H color then Colors_Black else Colors_White);
            hoverTabBrush = GetAccentColor H color;
            selectedTabBrush = color;
            deselectedTabBrush = color\<lparr>Color_A := 64\<rparr>;
            t1 = t\<lparr>tabViewItem_Resources := (tabViewItem_Resources t)
                   (''TabViewItemHeaderBackgroundSelected'' \<mapsto> selectedTabBrush,
                    ''TabViewItemHeaderBackground'' \<mapsto> deselectedTabBrush,
                    ''TabViewItemHeaderBackgroundPointerOver'' \<mapsto> hoverTabBrush,
                    ''TabViewItemHeaderBackgroundPressed'' \<mapsto> selectedTabBrush,
                    ''TabViewItemHeaderForeground'' \<mapsto> fontBrush,
                    ''TabViewItemHeaderForegroundSelected'' \<mapsto> fontBrush,
                    ''TabViewItemHeaderForegroundPointerOver'' \<mapsto> fontBrush,
                    ''TabViewItemHeaderForegroundPressed'' \<mapsto> fontBrush,
                    ''TabViewButtonForegroundActiveTab'' \<mapsto> fontBrush)\<rparr>;
            t2 = RefreshVisualState t1;
            t3 = t2\<lparr>tabColor := Some color\<rparr>
        in t3\<lparr>trace := trace t3 @ [ColorSelected color]\<rparr>)"

text \<open>The \<^verbatim>\<open>keys\<close> array of \<^verbatim>\<open>Tab::_ResetTabColor\<close>.\<close>
definition keys :: "string list" where
  "keys =
     [''TabViewItemHeaderBackground'',
      ''TabViewItemHeaderBackgroundSelected'',
      ''TabViewItemHeaderBackgroundPointerOver'',
      ''TabViewItemHeaderForeground'',
      ''TabViewItemHeaderForegroundSelected'',
      ''TabViewItemHeaderForegroundPointerOver'',
      ''TabViewItemHeaderBackgroundPressed'',
      ''TabViewItemHeaderForegroundPressed'',
      ''TabViewButtonForegroundActiveTab'']"

text \<open>The loop of \<^verbatim>\<open>Tab::_ResetTabColor\<close>: remove each key the dictionary has.\<close>
fun remove_keys :: "string list \<Rightarrow> (string \<rightharpoonup> Color) \<Rightarrow> (string \<rightharpoonup> Color)" where
  "remove_keys [] m = m"
| "remove_keys (keyString # ks) m =
     remove_keys ks (if m keyString \<noteq> None then m(keyString := None) else m)"

text \<open>\<^verbatim>\<open>Tab::_ResetTabColor\<close>\<close>
definition ResetTabColor :: "Tab \<Rightarrow> Tab" where
  "ResetTabColor t =
     (if \<not> alive t then t
      else
        let t1 = t\<lparr>tabViewItem_Resources := remove_keys keys (tabViewItem_Resources t)\<rparr>;
            t2 = RefreshVisualState t1;
            t3 = t2\<lparr>tabColor := None\<rparr>
        in t3\<lparr>trace := trace t3 @ [ColorCleared]\<rparr>)"

subsection \<open>The dispatcher\<close>

text \<open>
  The second half of each suspended operation. \<^verbatim>\<open>UpdateIcon\<close> and \<^verbatim>\<open>_UpdateTitle\<close>
  go on only if \<^verbatim>\<open>weakThis.get()\<close> is not null; the colour lambda checks the same;
  \<^verbatim>\<open>Scroll\<close> makes no such check: it reads the scroll offset of the control it kept
  and scrolls that control to the offset plus \<open>delta\<close>.
\<close>
fun resume :: "ColorHelper \<Rightarrow> continuation \<Rightarrow> Tab \<Rightarrow> Tab" where
  "resume H UpdateIcon_resume t =
     (if alive t then t\<lparr>IconSource := Some (BitmapIconSource (lastIconPath t))\<rparr> else t)"
| "resume H UpdateTitle_resume t =
     (if alive t then UpdateTabHeader (t\<lparr>Title := GetActiveTitle t\<rparr>) else t)"
| "resume H (Scroll_resume control delta) t =
     (let currentOffset = scrollOffset (controls t control)
      in t\<lparr>controls := (controls t)
             (control := (controls t control)\<lparr>scrollOffset := currentOffset + delta\<rparr>)\<rparr>)"
| "resume H (SetTabColor_lambda color) t = SetTabColor_run H color t"

text \<open>The dispatcher runs the oldest queued continuation.\<close>
definition dispatch :: "ColorHelper \<Rightarrow> Tab \<Rightarrow> Tab" where
  "dispatch H t =
     (case pending t of
        [] \<Rightarrow> t
      | k # ks \<Rightarrow> resume H k (t\<lparr>pending := ks\<rparr>))"

text \<open>How often an effect occurs in a trace.\<close>
definition raised :: "effect \<Rightarrow> Tab \<Rightarrow> nat" where
  "raised e t = count_list (trace t) e"

text \<open>The Tab object is destroyed: from now on \<^verbatim>\<open>weakThis.get()\<close> is null.\<close>
definition destroy :: "Tab \<Rightarrow> Tab" where
  "destroy t = t\<lparr>alive := False\<rparr>"

subsection \<open>Concrete inputs\<close>

text \<open>
  Two sessions: control 0 is titled pwsh, every other control cmd; none has completed
  its startup yet.
\<close>
definition sample_controls :: "control_ref \<Rightarrow> TermControl" where
  "sample_controls c =
     \<lparr>controlTitle = (if c = 0 then ''pwsh'' else ''cmd''), scrollOffset = 0, initialized = False\<rparr>"

text \<open>A freshly constructed Tab with profile 7 and control 0.\<close>
definition tab0 :: Tab where
  "tab0 = Tab_ctor 7 0 sample_controls"

text \<open>A colour helper to evaluate with: a brightness cutoff and an accent shade.\<close>
definition sample_helper :: ColorHelper where
  "sample_helper =
     \<lparr>IsBrightColor =
        (\<lambda>c. 128000 < unat (Color_R c) * 299 + unat (Color_G c) * 587 + unat (Color_B c) * 114),
      GetAccentColor = (\<lambda>c. c\<lparr>Color_A := 128\<rparr>)\<rparr>"

definition darkBlue :: Color where
  "darkBlue = \<lparr>Color_A = 255, Color_R = 0, Color_G = 0, Color_B = 139\<rparr>"

text \<open>
  \<open>tab0\<close> after \<^verbatim>\<open>SplitPane(Vertical, 8, control 1)\<close>: the root has become a Split
  whose first leaf holds control 0 and whose second leaf holds control 1.
\<close>
definition split0 :: Tab where
  "split0 = tab0\<lparr>rootPane := Parent 0 Vertical (1 / 2) (Leaf 1 0 7 False) (Leaf 2 1 8 True),
                 activePane := 2,
                 pending := [UpdateTitle_resume],
                 trace := [ActivePaneChanged]\<rparr>"

text \<open>
  \<open>tab0\<close> after control 0 has completed its startup and the active pane was then
  split with the new control 1, which has not completed its startup.
\<close>
definition init_split0 :: Tab where
  "init_split0 =
     tab0\<lparr>rootPane := Parent 0 Vertical (1 / 2) (Leaf 1 0 7 False) (Leaf 2 1 8 True),
          activePane := 2,
          focused := True,
          controlInitialized := True,
          controls := sample_controls(0 := (sample_controls 0)\<lparr>initialized := True\<rparr>),
          pending := [UpdateTitle_resume],
          trace := [ControlFocus 0, ActivePaneChanged]\<rparr>"

text \<open>The user types into the rename box.\<close>
definition TextBox_edit :: "string \<Rightarrow> Tab \<Rightarrow> Tab" where
  "TextBox_edit txt t =
     (case tabViewItem_Header t of
        TextBox old \<Rightarrow> t\<lparr>tabViewItem_Header := TextBox txt\<rparr>
      | Content \<Rightarrow> t)"

text \<open>\<open>tab0\<close> in a rename, with Build typed into the box.\<close>
definition renaming0 :: Tab where
  "renaming0 = TextBox_edit ''Build'' (OnRenameTabMenuItemClick tab0)"

text \<open>A tab that was renamed to Build, in a second rename, with the box emptied.\<close>
definition clearing0 :: Tab where
  "clearing0 =
     TextBox_edit []
       (OnRenameTabMenuItemClick
          (tab0\<lparr>runtimeTabText := ''Build'', tabViewItem_Header := TextBox ''Build''\<rparr>))"

section \<open>Properties\<close>

subsection \<open>The pane tree\<close>

lemma lookup_ClearActive: "lookup x (ClearActive T) = map_option ClearActive (lookup x T)"
  by (induction T) (auto split: option.splits)

lemma lookup_SetActive: "lookup x (SetActive y T) = map_option (SetActive y) (lookup x T)"
  by (induction T) (auto split: option.splits)

lemma lookup_above_max: "max_ref T < y \<Longrightarrow> lookup y T = None"
  by (induction T) auto

lemma split_leaf_absent: "lookup x T = None \<Longrightarrow> split_leaf x st g' c' f s T = T"
  by (induction T) (auto split: option.splits if_splits)

text \<open>
  Splitting the leaf \<open>x\<close> puts the two fresh leaves into the tree: the first holds
  the session of \<open>x\<close>, the second the new one.
\<close>
lemma lookup_split_leaf_fresh:
  "lookup x T = Some (Leaf i c g a) \<Longrightarrow> max_ref T < f \<Longrightarrow> f < s \<Longrightarrow>
   lookup f (split_leaf x st g' c' f s T) = Some (Leaf f c g a) \<and>
   lookup s (split_leaf x st g' c' f s T) = Some (Leaf s c' g' False)"
proof (induction T)
  case (Leaf j d h b)
  then show ?case by (auto split: if_splits)
next
  case (Parent j st' r p q)
  from Parent.prems have j: "j \<noteq> x" by (auto split: if_splits)
  from Parent.prems have fr: "j \<noteq> f" "j \<noteq> s" "max_ref p < f" "max_ref q < f" by auto
  show ?case
  proof (cases "lookup x p")
    case None
    with Parent.prems j have q: "lookup x q = Some (Leaf i c g a)" by simp
    have p: "split_leaf x st g' c' f s p = p" using None by (rule split_leaf_absent)
    have "lookup f p = None" "lookup s p = None"
      using fr Parent.prems(3) by (auto intro: lookup_above_max)
    with Parent.IH(2)[OF q fr(4) Parent.prems(3)] p fr show ?thesis by simp
  next
    case (Some n)
    with Parent.prems j have n: "lookup x p = Some (Leaf i c g a)" by simp
    from Parent.IH(1)[OF n fr(3) Parent.prems(3)] fr show ?thesis by simp
  qed
qed

lemma lookup_id: "lookup x T = Some (Leaf i c g a) \<Longrightarrow> i = x"
  by (induction T) (auto split: if_splits option.splits)

lemma lookup_active_again:
  "lookup p T = Some (Leaf i c g a) \<Longrightarrow>
   lookup p (SetActive p (ClearActive T)) = Some (Leaf p c g True)"
  by (frule lookup_id) (simp add: lookup_SetActive lookup_ClearActive)

subsection \<open>Title\<close>

lemma UpdateTitle_Some:
  "GetActiveTerminalControl t = Some c \<Longrightarrow>
   UpdateTitle t = Inr (t\<lparr>pending := pending t @ [UpdateTitle_resume]\<rparr>)"
  by (simp add: UpdateTitle_def resume_foreground_def)

text \<open>
  C5. The display title is the runtime tab text when there is one (it is not empty),
  otherwise the title of the control of the active leaf, otherwise the empty string
  when the active pane hosts no control.
\<close>
theorem GetActiveTitle_cases:
  "GetActiveTitle t =
     (if runtimeTabText t \<noteq> [] then runtimeTabText t
      else case lookup (activePane t) (rootPane t) of
             Some (Leaf i c g a) \<Rightarrow> controlTitle (controls t c)
           | Some (Parent i st r p q) \<Rightarrow> []
           | None \<Rightarrow> [])"
  by (simp add: GetActiveTitle_def GetActiveTerminalControl_def split: option.splits Pane.splits)

subsection \<open>Icon\<close>

text \<open>
  C10. UpdateIcon with the icon path that was applied last returns at once: no member
  of the Tab changes and nothing is queued. Hence a second call with the same path
  changes nothing.
\<close>
theorem UpdateIcon_same_path:
  "UpdateIcon (lastIconPath t) t = Inr t \<and>
   (\<forall>t'. UpdateIcon iconPath t = Inr t' \<longrightarrow> UpdateIcon iconPath t' = Inr t')"
  by (auto simp: UpdateIcon_def resume_foreground_def Let_def split: if_splits option.splits)

theorem UpdateIcon_same_path_witness:
  "UpdateIcon ''a.png'' tab0 = Inr (tab0\<lparr>lastIconPath := ''a.png'', pending := [UpdateIcon_resume]\<rparr>) \<and>
   UpdateIcon ''a.png'' (tab0\<lparr>lastIconPath := ''a.png'', pending := [UpdateIcon_resume]\<rparr>)
     = Inr (tab0\<lparr>lastIconPath := ''a.png'', pending := [UpdateIcon_resume]\<rparr>)"
proof -
  have "UpdateIcon ''a.png'' tab0 = Inr (tab0\<lparr>lastIconPath := ''a.png'', pending := [UpdateIcon_resume]\<rparr>)"
    by (simp add: UpdateIcon_def resume_foreground_def GetActiveTerminalControl_def
        tab0_def Tab_ctor_def)
  with UpdateIcon_same_path [where t = tab0 and iconPath = "''a.png''"] show ?thesis by simp
qed

subsection \<open>Focus\<close>

text \<open>
  C3, as stated, fails twice. The \<^verbatim>\<open>TerminalInitialized\<close> handler does not ask whether
  the Tab is focused: on the fresh, unfocused \<open>tab0\<close> it marks the Tab focused and
  focuses control 0. And the gate of \<^verbatim>\<open>_Focus\<close> is one flag of the Tab, not the state
  of the hosted control: once control 0 has completed its startup and the pane is split
  with the new control 1, the active pane hosts control 1, which has not completed its
  startup, and \<^verbatim>\<open>SetFocused(true)\<close> focuses it.
\<close>
theorem focus_unfocused_counterexample:
  "\<not> focused tab0 \<and> \<not> controlInitialized tab0 \<and>
   focused (TerminalInitialized_handler tab0) \<and>
   trace tab0 = [] \<and>
   trace (TerminalInitialized_handler tab0) = [ControlFocus 0] \<and>
   SplitPane Vertical 8 1 (TerminalInitialized_event 0 tab0) = Inr init_split0 \<and>
   GetActiveTerminalControl init_split0 = Some 1 \<and>
   \<not> initialized (controls init_split0 1) \<and>
   trace (SetFocused True init_split0) = trace init_split0 @ [ControlFocus 1]"
  by (simp add: TerminalInitialized_handler_def TerminalInitialized_event_def Focus_def
      SetFocused_def GetActiveTerminalControl_def SplitPane_def Pane_Split_def
      UpdateActivePane_def UpdateTitle_def resume_foreground_def
      init_split0_def tab0_def Tab_ctor_def sample_controls_def)

text \<open>
  C3, amended. While the Tab's flag \<^verbatim>\<open>_controlInitialized\<close> is not set, \<^verbatim>\<open>_Focus\<close>
  changes nothing and \<^verbatim>\<open>SetFocused(true)\<close> only records the focused flag: no control
  is focused. When \<^verbatim>\<open>TerminalInitialized\<close> arrives at a live Tab, the Tab sets that
  flag, marks itself focused and focuses the active control if there is one, whether or
  not the Tab was focused before.
\<close>
theorem focus_gated_by_initialization:
  "(\<not> controlInitialized t \<longrightarrow>
      Focus t = t \<and> SetFocused True t = t\<lparr>focused := True\<rparr> \<and>
      trace (SetFocused True t) = trace t) \<and>
   (alive t \<longrightarrow>
      controlInitialized (TerminalInitialized_handler t) \<and>
      focused (TerminalInitialized_handler t) \<and>
      trace (TerminalInitialized_handler t) =
        trace t @ (case GetActiveTerminalControl t of
                     Some c \<Rightarrow> [ControlFocus c]
                   | None \<Rightarrow> []))"
  by (auto simp: Focus_def SetFocused_def TerminalInitialized_handler_def
      GetActiveTerminalControl_def Let_def split: option.splits)

theorem focus_gated_by_initialization_witness:
  "\<not> controlInitialized tab0 \<and> alive tab0 \<and>
   Focus tab0 = tab0 \<and> SetFocused True tab0 = tab0\<lparr>focused := True\<rparr> \<and>
   trace (SetFocused True tab0) = [] \<and>
   controlInitialized (TerminalInitialized_handler tab0) \<and>
   focused (TerminalInitialized_handler tab0) \<and>
   trace (TerminalInitialized_handler tab0) = [ControlFocus 0]"
proof -
  have h: "\<not> controlInitialized tab0" "alive tab0" "trace tab0 = []"
    "GetActiveTerminalControl tab0 = Some 0"
    by (simp_all add: tab0_def Tab_ctor_def GetActiveTerminalControl_def)
  with focus_gated_by_initialization [of tab0] show ?thesis by simp
qed

subsection \<open>Resuming after the Tab is gone\<close>

text \<open>
  C4, as stated, fails for Scroll: its second half makes no liveness check. Scroll by 1
  on \<open>tab0\<close> queues the continuation; the Tab is destroyed; the dispatcher resumes the
  continuation, and the control's scroll offset goes from 0 to 1.
\<close>
theorem resumed_Scroll_counterexample:
  "Scroll 1 tab0 = Inr (tab0\<lparr>pending := [Scroll_resume 0 1]\<rparr>) \<and>
   \<not> alive (destroy (tab0\<lparr>pending := [Scroll_resume 0 1]\<rparr>)) \<and>
   scrollOffset (controls (destroy (tab0\<lparr>pending := [Scroll_resume 0 1]\<rparr>)) 0) = 0 \<and>
   scrollOffset
     (controls (dispatch sample_helper (destroy (tab0\<lparr>pending := [Scroll_resume 0 1]\<rparr>))) 0) = 1"
  by (simp add: Scroll_def resume_foreground_def GetActiveTerminalControl_def dispatch_def
      destroy_def tab0_def Tab_ctor_def sample_controls_def)

text \<open>
  C4, amended. Resumed after the Tab was destroyed, the icon update, the title update
  and the colour lambda do nothing: no member changes and no effect is raised. Scroll
  makes no liveness check: it still scrolls the control it kept to its offset plus
  \<open>delta\<close> (a 32-bit sum, which wraps around), and that is all it changes.
\<close>
theorem resumed_after_destruction:
  assumes "\<not> alive t"
  shows "resume H UpdateIcon_resume t = t \<and>
         resume H UpdateTitle_resume t = t \<and>
         resume H (SetTabColor_lambda color) t = t \<and>
         resume H (Scroll_resume control delta) t =
           t\<lparr>controls := (controls t)
               (control := (controls t control)
                  \<lparr>scrollOffset := scrollOffset (controls t control) + delta\<rparr>)\<rparr>"
  using assms by (simp add: SetTabColor_run_def)

theorem resumed_after_destruction_witness:
  "\<not> alive (destroy tab0) \<and>
   resume sample_helper UpdateIcon_resume (destroy tab0) = destroy tab0 \<and>
   resume sample_helper UpdateTitle_resume (destroy tab0) = destroy tab0 \<and>
   resume sample_helper (SetTabColor_lambda darkBlue) (destroy tab0) = destroy tab0 \<and>
   scrollOffset (controls (resume sample_helper (Scroll_resume 0 1) (destroy tab0)) 0) = 1 \<and>
   trace (resume sample_helper (Scroll_resume 0 1) (destroy tab0)) = [] \<and>
   sint (scrollOffset (controls
      (resume sample_helper (Scroll_resume 0 1)
         (resume sample_helper (Scroll_resume 0 2147483647) (destroy tab0))) 0)) = - 2147483648"
proof -
  have h: "\<not> alive (destroy tab0)" by (simp add: destroy_def)
  have s: "scrollOffset (controls (destroy tab0) 0) = 0" "trace (destroy tab0) = []"
    by (simp_all add: destroy_def tab0_def Tab_ctor_def sample_controls_def)
  have w: "sint (scrollOffset (controls
      (resume sample_helper (Scroll_resume 0 1)
         (resume sample_helper (Scroll_resume 0 2147483647) (destroy tab0))) 0)) = - 2147483648"
    by (simp add: destroy_def tab0_def Tab_ctor_def sample_controls_def)
  from resumed_after_destruction [OF h, of sample_helper darkBlue 0 1] h s w
  show ?thesis by simp
qed

subsection \<open>Rename\<close>

lemma KeyUp_Escape_Some:
  "GetActiveTerminalControl t = Some c \<Longrightarrow>
   KeyUp_Escape t =
     Inr (t\<lparr>tabViewItem_Header := TextBox (runtimeTabText t), inRename := False,
            pending := pending t @ [UpdateTitle_resume]\<rparr>)"
  by (simp add: KeyUp_Escape_def UpdateTitle_def resume_foreground_def
      GetActiveTerminalControl_def)

lemma LostFocus_handler_Some:
  "alive t \<Longrightarrow> tabViewItem_Header t = TextBox txt \<Longrightarrow> GetActiveTerminalControl t = Some c \<Longrightarrow>
   LostFocus_handler t =
     Inr (t\<lparr>runtimeTabText := txt, inRename := False,
            pending := pending t @ [UpdateTitle_resume]\<rparr>)"
  by (simp add: LostFocus_handler_def UpdateTitle_def resume_foreground_def
      GetActiveTerminalControl_def)

lemma KeyUp_Enter_Some:
  "alive t \<Longrightarrow> tabViewItem_Header t = TextBox txt \<Longrightarrow> GetActiveTerminalControl t = Some c \<Longrightarrow>
   KeyUp_handler Enter t =
     Inr (t\<lparr>runtimeTabText := txt, inRename := False,
            pending := pending t @ [UpdateTitle_resume]\<rparr>)"
  by (simp add: KeyUp_handler_def KeyUp_Escape_def UpdateTitle_def resume_foreground_def
      GetActiveTerminalControl_def)

lemma resume_UpdateTitle_idle:
  "alive t \<Longrightarrow> \<not> inRename t \<Longrightarrow> Title (resume H UpdateTitle_resume t) = GetActiveTitle t"
  by (simp add: UpdateTabHeader_def GetActiveTitle_def GetActiveTerminalControl_def
      split: option.splits)

lemma rename_inputs:
  "alive renaming0" "tabViewItem_Header renaming0 = TextBox ''Build''"
  "GetActiveTerminalControl renaming0 = Some 0" "inRename renaming0"
  "GetActiveTitle renaming0 = ''pwsh''" "runtimeTabText renaming0 = []"
  "alive clearing0" "tabViewItem_Header clearing0 = TextBox []"
  "GetActiveTerminalControl clearing0 = Some 0" "inRename clearing0"
  "GetActiveTitle clearing0 = ''Build''" "controlTitle (controls clearing0 0) = ''pwsh''"
  by (simp_all add: renaming0_def clearing0_def TextBox_edit_def OnRenameTabMenuItemClick_def
      UpdateTabHeader_def ConstructTabRenameBox_def GetActiveTitle_def
      GetActiveTerminalControl_def tab0_def Tab_ctor_def sample_controls_def)

text \<open>
  C6. In a rename (the header is the text box, the Tab is alive and its active pane
  hosts a control), the Escape key writes the runtime text back into the box, leaves
  the rename and keeps the runtime text, so the display title is what it was, also
  once the queued title update has run and when the box then loses focus. The box
  losing focus stores the edited text as the runtime text and leaves the rename, with
  the very result of the Enter key.
\<close>
theorem rename_cancel_and_blur:
  assumes "alive t" and "tabViewItem_Header t = TextBox txt"
    and "GetActiveTerminalControl t = Some c"
  shows "(\<exists>t1. KeyUp_handler Escape t = Inr t1 \<and>
            tabViewItem_Header t1 = TextBox (runtimeTabText t) \<and>
            \<not> inRename t1 \<and>
            runtimeTabText t1 = runtimeTabText t \<and>
            GetActiveTitle t1 = GetActiveTitle t \<and>
            Title t1 = Title t \<and>
            Title (resume H UpdateTitle_resume t1) = GetActiveTitle t \<and>
            (\<exists>t1'. LostFocus_handler t1 = Inr t1' \<and> runtimeTabText t1' = runtimeTabText t)) \<and>
         (\<exists>t2. LostFocus_handler t = Inr t2 \<and>
            runtimeTabText t2 = txt \<and>
            \<not> inRename t2 \<and>
            KeyUp_handler Enter t = Inr t2)"
proof (intro conjI)
  let ?t1 = "t\<lparr>tabViewItem_Header := TextBox (runtimeTabText t), inRename := False,
               pending := pending t @ [UpdateTitle_resume]\<rparr>"
  have "KeyUp_handler Escape t = Inr ?t1"
    using assms KeyUp_Escape_Some [of t c] by (simp add: KeyUp_handler_def)
  moreover have "GetActiveTitle ?t1 = GetActiveTitle t"
    by (simp add: GetActiveTitle_def GetActiveTerminalControl_def split: option.splits)
  moreover have "Title (resume H UpdateTitle_resume ?t1) = GetActiveTitle ?t1"
    using assms(1) by (intro resume_UpdateTitle_idle) simp_all
  moreover have "\<exists>t1'. LostFocus_handler ?t1 = Inr t1' \<and> runtimeTabText t1' = runtimeTabText t"
  proof -
    have "GetActiveTerminalControl ?t1 = Some c"
      using assms(3) by (simp add: GetActiveTerminalControl_def)
    from LostFocus_handler_Some [OF _ _ this, of "runtimeTabText t"] assms(1)
    show ?thesis by simp
  qed
  ultimately show "\<exists>t1. KeyUp_handler Escape t = Inr t1 \<and>
            tabViewItem_Header t1 = TextBox (runtimeTabText t) \<and>
            \<not> inRename t1 \<and>
            runtimeTabText t1 = runtimeTabText t \<and>
            GetActiveTitle t1 = GetActiveTitle t \<and>
            Title t1 = Title t \<and>
            Title (resume H UpdateTitle_resume t1) = GetActiveTitle t \<and>
            (\<exists>t1'. LostFocus_handler t1 = Inr t1' \<and> runtimeTabText t1' = runtimeTabText t)"
    by simp
next
  show "\<exists>t2. LostFocus_handler t = Inr t2 \<and> runtimeTabText t2 = txt \<and> \<not> inRename t2 \<and>
            KeyUp_handler Enter t = Inr t2"
    using LostFocus_handler_Some [OF assms] KeyUp_Enter_Some [OF assms] by simp
qed

theorem rename_cancel_and_blur_witness:
  "alive renaming0 \<and> tabViewItem_Header renaming0 = TextBox ''Build'' \<and>
   GetActiveTerminalControl renaming0 = Some 0 \<and> inRename renaming0 \<and>
   GetActiveTitle renaming0 = ''pwsh'' \<and>
   (\<exists>t1. KeyUp_handler Escape renaming0 = Inr t1 \<and> \<not> inRename t1 \<and>
      runtimeTabText t1 = [] \<and> GetActiveTitle t1 = ''pwsh'' \<and>
      Title (resume sample_helper UpdateTitle_resume t1) = ''pwsh'') \<and>
   (\<exists>t2. LostFocus_handler renaming0 = Inr t2 \<and> runtimeTabText t2 = ''Build'' \<and>
      \<not> inRename t2 \<and> KeyUp_handler Enter renaming0 = Inr t2)"
proof -
  note h = rename_inputs(1-3)
  from rename_cancel_and_blur [OF h, of sample_helper] rename_inputs(1-6) show ?thesis
    by (auto simp del: resume.simps)
qed

text \<open>
  C9. Committing a rename with an empty box, by the box losing focus or by the Enter
  key, makes the runtime text empty; the display title is then the title of the active
  pane's control, and that is the title the queued title update sets.
\<close>
theorem rename_commit_empty:
  assumes "alive t" and "tabViewItem_Header t = TextBox []"
    and "GetActiveTerminalControl t = Some c"
  shows "\<exists>t'. LostFocus_handler t = Inr t' \<and> KeyUp_handler Enter t = Inr t' \<and>
           runtimeTabText t' = [] \<and>
           GetActiveTitle t' = controlTitle (controls t c) \<and>
           Title (resume H UpdateTitle_resume t') = controlTitle (controls t c)"
proof -
  let ?t' = "t\<lparr>runtimeTabText := [], inRename := False,
               pending := pending t @ [UpdateTitle_resume]\<rparr>"
  have c: "GetActiveTerminalControl ?t' = Some c"
    using assms(3) by (simp add: GetActiveTerminalControl_def)
  then have g: "GetActiveTitle ?t' = controlTitle (controls t c)"
    by (simp add: GetActiveTitle_def)
  have "Title (resume H UpdateTitle_resume ?t') = GetActiveTitle ?t'"
    using assms(1) by (intro resume_UpdateTitle_idle) simp_all
  with g LostFocus_handler_Some [OF assms] KeyUp_Enter_Some [OF assms] show ?thesis
    by simp
qed

theorem rename_commit_empty_witness:
  "alive clearing0 \<and> tabViewItem_Header clearing0 = TextBox [] \<and>
   GetActiveTerminalControl clearing0 = Some 0 \<and>
   GetActiveTitle clearing0 = ''Build'' \<and>
   (\<exists>t'. LostFocus_handler clearing0 = Inr t' \<and> KeyUp_handler Enter clearing0 = Inr t' \<and>
      runtimeTabText t' = [] \<and> GetActiveTitle t' = ''pwsh'' \<and>
      Title (resume sample_helper UpdateTitle_resume t') = ''pwsh'')"
proof -
  note h = rename_inputs(7-9)
  from rename_commit_empty [OF h, of sample_helper] rename_inputs(7-12) show ?thesis
    by (auto simp del: resume.simps)
qed

subsection \<open>Tab colour\<close>

lemma remove_keys_apply:
  "remove_keys ks m k = (if k \<in> set ks then None else m k)"
  by (induction ks arbitrary: m) auto

lemma trace_RefreshVisualState:
  "trace (RefreshVisualState t) =
     trace t @ (if focused t then [GoToState ''Normal'', GoToState ''Selected'']
                else [GoToState ''Selected'', GoToState ''Normal''])"
  by (simp add: RefreshVisualState_def)

lemma RefreshVisualState_fields:
  "tabViewItem_Resources (RefreshVisualState t) = tabViewItem_Resources t"
  "tabColor (RefreshVisualState t) = tabColor t"
  "alive (RefreshVisualState t) = alive t"
  by (simp_all add: RefreshVisualState_def)

lemma Resources_SetTabColor_run:
  "alive t \<Longrightarrow>
   tabViewItem_Resources (SetTabColor_run H color t) =
     (tabViewItem_Resources t)
       (''TabViewItemHeaderBackgroundSelected'' \<mapsto> color,
        ''TabViewItemHeaderBackground'' \<mapsto> color\<lparr>Color_A := 64\<rparr>,
        ''TabViewItemHeaderBackgroundPointerOver'' \<mapsto> GetAccentColor H color,
        ''TabViewItemHeaderBackgroundPressed'' \<mapsto> color,
        ''TabViewItemHeaderForeground'' \<mapsto> (if IsBrightColor H color then Colors_Black else Colors_White),
        ''TabViewItemHeaderForegroundSelected'' \<mapsto> (if IsBrightColor H color then Colors_Black else Colors_White),
        ''TabViewItemHeaderForegroundPointerOver'' \<mapsto> (if IsBrightColor H color then Colors_Black else Colors_White),
        ''TabViewItemHeaderForegroundPressed'' \<mapsto> (if IsBrightColor H color then Colors_Black else Colors_White),
        ''TabViewButtonForegroundActiveTab'' \<mapsto> (if IsBrightColor H color then Colors_Black else Colors_White))"
  by (simp add: SetTabColor_run_def Let_def RefreshVisualState_fields)

lemma trace_SetTabColor_run:
  "alive t \<Longrightarrow>
   trace (SetTabColor_run H color t) = trace (RefreshVisualState t) @ [ColorSelected color]"
  by (simp add: SetTabColor_run_def Let_def RefreshVisualState_def)

lemma fields_SetTabColor_run:
  "alive t \<Longrightarrow> tabColor (SetTabColor_run H color t) = Some color"
  "alive (SetTabColor_run H color t) = alive t"
  by (simp_all add: SetTabColor_run_def Let_def RefreshVisualState_def)

lemma trace_ResetTabColor:
  "alive t \<Longrightarrow> trace (ResetTabColor t) = trace (RefreshVisualState t) @ [ColorCleared]"
  by (simp add: ResetTabColor_def Let_def RefreshVisualState_def)

lemma fields_ResetTabColor:
  "alive t \<Longrightarrow> tabColor (ResetTabColor t) = None"
  "alive t \<Longrightarrow> tabViewItem_Resources (ResetTabColor t) = remove_keys keys (tabViewItem_Resources t)"
  by (simp_all add: ResetTabColor_def Let_def RefreshVisualState_def)

text \<open>
  C7. \<^verbatim>\<open>_SetTabColor\<close> hands its work to the dispatcher. Run on a live Tab, for every
  colour and every colour helper: the foreground is black when the helper finds the
  colour bright and white otherwise; the selected and pressed backgrounds are the
  colour, the hover background is the helper's accent shade, the deselected background
  is the colour with alpha 64, and the five foreground slots are the foreground; the
  colour is recorded as the tab colour; after the visual-state refresh exactly one
  \<open>ColorSelected\<close> is raised, carrying that colour, and none with another colour.
\<close>
theorem SetTabColor_effect:
  assumes "alive t"
  shows "SetTabColor color t = t\<lparr>pending := pending t @ [SetTabColor_lambda color]\<rparr> \<and>
    (let t' = resume H (SetTabColor_lambda color) t;
         foreground = (if IsBrightColor H color then Colors_Black else Colors_White)
     in tabViewItem_Resources t' ''TabViewItemHeaderBackgroundSelected'' = Some color \<and>
        tabViewItem_Resources t' ''TabViewItemHeaderBackground'' = Some (color\<lparr>Color_A := 64\<rparr>) \<and>
        tabViewItem_Resources t' ''TabViewItemHeaderBackgroundPointerOver'' = Some (GetAccentColor H color) \<and>
        tabViewItem_Resources t' ''TabViewItemHeaderBackgroundPressed'' = Some color \<and>
        tabViewItem_Resources t' ''TabViewItemHeaderForeground'' = Some foreground \<and>
        tabViewItem_Resources t' ''TabViewItemHeaderForegroundSelected'' = Some foreground \<and>
        tabViewItem_Resources t' ''TabViewItemHeaderForegroundPointerOver'' = Some foreground \<and>
        tabViewItem_Resources t' ''TabViewItemHeaderForegroundPressed'' = Some foreground \<and>
        tabViewItem_Resources t' ''TabViewButtonForegroundActiveTab'' = Some foreground \<and>
        tabColor t' = Some color \<and>
        trace t' = trace (RefreshVisualState t) @ [ColorSelected color] \<and>
        (\<forall>c. raised (ColorSelected c) t' = raised (ColorSelected c) t + (if c = color then 1 else 0)))"
proof -
  have "SetTabColor color t = t\<lparr>pending := pending t @ [SetTabColor_lambda color]\<rparr>"
    by (simp add: SetTabColor_def)
  moreover have "\<forall>c. raised (ColorSelected c) (SetTabColor_run H color t)
      = raised (ColorSelected c) t + (if c = color then 1 else 0)"
    using assms by (simp add: raised_def trace_SetTabColor_run trace_RefreshVisualState)
  ultimately show ?thesis
    using assms
    by (simp add: Let_def Resources_SetTabColor_run trace_SetTabColor_run
        fields_SetTabColor_run)
qed

theorem SetTabColor_effect_witness:
  "alive tab0 \<and> \<not> IsBrightColor sample_helper darkBlue \<and>
   tabViewItem_Resources (resume sample_helper (SetTabColor_lambda darkBlue) tab0)
     ''TabViewItemHeaderBackground'' = Some (darkBlue\<lparr>Color_A := 64\<rparr>) \<and>
   tabViewItem_Resources (resume sample_helper (SetTabColor_lambda darkBlue) tab0)
     ''TabViewItemHeaderForeground'' = Some Colors_White \<and>
   tabColor (resume sample_helper (SetTabColor_lambda darkBlue) tab0) = Some darkBlue \<and>
   raised (ColorSelected darkBlue) tab0 = 0 \<and>
   raised (ColorSelected darkBlue) (resume sample_helper (SetTabColor_lambda darkBlue) tab0) = 1"
proof -
  have h: "alive tab0" "raised (ColorSelected darkBlue) tab0 = 0"
    by (simp_all add: tab0_def Tab_ctor_def raised_def)
  have d: "\<not> IsBrightColor sample_helper darkBlue"
    by (simp add: sample_helper_def darkBlue_def)
  from SetTabColor_effect [OF h(1), of darkBlue sample_helper] h d show ?thesis
    by (simp add: Let_def del: resume.simps)
qed

text \<open>
  C8, as stated, fails: clearing the colour of \<open>tab0\<close>, which has none, refreshes the
  visual state and raises \<open>ColorCleared\<close>.
\<close>
theorem ResetTabColor_absent_counterexample:
  "tabColor tab0 = None \<and> trace tab0 = [] \<and>
   trace (ResetTabColor tab0) = [GoToState ''Selected'', GoToState ''Normal'', ColorCleared] \<and>
   raised ColorCleared (ResetTabColor tab0) = 1"
  by (simp add: ResetTabColor_def RefreshVisualState_def raised_def tab0_def Tab_ctor_def)

text \<open>
  C8, amended. Every call of \<^verbatim>\<open>_ResetTabColor\<close> on a live Tab, also when no colour is
  assigned, removes the nine themed overrides, leaves every other resource alone, leaves
  no colour recorded, refreshes the visual state (two \<open>GoToState\<close> calls, in the order
  the focus decides) and then raises \<open>ColorCleared\<close> once. So after \<^verbatim>\<open>_SetTabColor\<close>
  followed by \<^verbatim>\<open>_ResetTabColor\<close>, whether the colour lambda has run in between or is
  still queued, no themed override remains, no colour is recorded and \<open>ColorCleared\<close>
  was raised exactly once.
\<close>
theorem ResetTabColor_effect:
  assumes "alive t"
  shows "tabColor (ResetTabColor t) = None \<and>
         (\<forall>k\<in>set keys. tabViewItem_Resources (ResetTabColor t) k = None) \<and>
         (\<forall>k. k \<notin> set keys \<longrightarrow> tabViewItem_Resources (ResetTabColor t) k = tabViewItem_Resources t k) \<and>
         trace (ResetTabColor t) =
           trace t @ (if focused t then [GoToState ''Normal'', GoToState ''Selected'']
                      else [GoToState ''Selected'', GoToState ''Normal'']) @ [ColorCleared] \<and>
         raised ColorCleared (ResetTabColor t) = raised ColorCleared t + 1 \<and>
         (let t2 = ResetTabColor (resume H (SetTabColor_lambda color) t)
          in tabColor t2 = None \<and>
             (\<forall>k\<in>set keys. tabViewItem_Resources t2 k = None) \<and>
             (\<forall>k. k \<notin> set keys \<longrightarrow> tabViewItem_Resources t2 k = tabViewItem_Resources t k) \<and>
             raised ColorCleared t2 = raised ColorCleared t + 1) \<and>
         (let t2 = ResetTabColor (SetTabColor color t)
          in tabColor t2 = None \<and>
             (\<forall>k\<in>set keys. tabViewItem_Resources t2 k = None) \<and>
             (\<forall>k. k \<notin> set keys \<longrightarrow> tabViewItem_Resources t2 k = tabViewItem_Resources t k) \<and>
             raised ColorCleared t2 = raised ColorCleared t + 1)"
proof -
  have one: "tabColor (ResetTabColor u) = None \<and>
         (\<forall>k\<in>set keys. tabViewItem_Resources (ResetTabColor u) k = None) \<and>
         (\<forall>k. k \<notin> set keys \<longrightarrow> tabViewItem_Resources (ResetTabColor u) k = tabViewItem_Resources u k) \<and>
         raised ColorCleared (ResetTabColor u) = raised ColorCleared u + 1" if "alive u" for u
    using that
    by (simp add: fields_ResetTabColor remove_keys_apply raised_def trace_ResetTabColor
        trace_RefreshVisualState)
  have tr: "trace (ResetTabColor t) =
           trace t @ (if focused t then [GoToState ''Normal'', GoToState ''Selected'']
                      else [GoToState ''Selected'', GoToState ''Normal'']) @ [ColorCleared]"
    using assms by (simp add: trace_ResetTabColor trace_RefreshVisualState)
  let ?t1 = "SetTabColor_run H color t"
  have a1: "alive ?t1" using assms by (simp add: fields_SetTabColor_run)
  have r1: "raised ColorCleared ?t1 = raised ColorCleared t"
    using assms by (simp add: raised_def trace_SetTabColor_run trace_RefreshVisualState)
  have k1: "\<forall>k. k \<notin> set keys \<longrightarrow> tabViewItem_Resources ?t1 k = tabViewItem_Resources t k"
    using assms by (simp add: Resources_SetTabColor_run keys_def)
  let ?q = "SetTabColor color t"
  have q: "alive ?q" "raised ColorCleared ?q = raised ColorCleared t"
    "tabViewItem_Resources ?q = tabViewItem_Resources t"
    using assms by (simp_all add: SetTabColor_def raised_def)
  from one [OF assms] one [OF a1] one [OF q(1)] tr r1 k1 q(2,3) show ?thesis
    by (simp add: Let_def)
qed

theorem ResetTabColor_effect_witness:
  "alive tab0 \<and> ''TabViewItemHeaderBackground'' \<in> set keys \<and>
   tabViewItem_Resources (resume sample_helper (SetTabColor_lambda darkBlue) tab0)
     ''TabViewItemHeaderBackground'' = Some (darkBlue\<lparr>Color_A := 64\<rparr>) \<and>
   tabColor (ResetTabColor (resume sample_helper (SetTabColor_lambda darkBlue) tab0)) = None \<and>
   tabViewItem_Resources (ResetTabColor (resume sample_helper (SetTabColor_lambda darkBlue) tab0))
     ''TabViewItemHeaderBackground'' = None \<and>
   raised ColorCleared tab0 = 0 \<and>
   raised ColorCleared (ResetTabColor (resume sample_helper (SetTabColor_lambda darkBlue) tab0)) = 1 \<and>
   tabColor (ResetTabColor (SetTabColor darkBlue tab0)) = None \<and>
   raised ColorCleared (ResetTabColor (SetTabColor darkBlue tab0)) = 1 \<and>
   trace (ResetTabColor tab0) = [GoToState ''Selected'', GoToState ''Normal'', ColorCleared]"
proof -
  have h: "alive tab0" "raised ColorCleared tab0 = 0" "\<not> focused tab0" "trace tab0 = []"
    by (simp_all add: tab0_def Tab_ctor_def raised_def)
  have k: "''TabViewItemHeaderBackground'' \<in> set keys" by (simp add: keys_def)
  have r: "tabViewItem_Resources (resume sample_helper (SetTabColor_lambda darkBlue) tab0)
     ''TabViewItemHeaderBackground'' = Some (darkBlue\<lparr>Color_A := 64\<rparr>)"
    using h(1) by (simp add: Resources_SetTabColor_run)
  from ResetTabColor_effect [OF h(1), of sample_helper darkBlue] h k r show ?thesis
    by (simp add: Let_def del: resume.simps)
qed

subsection \<open>Active pane\<close>

lemma UpdateActivePane_leaf:
  assumes "lookup p (rootPane t) = Some (Leaf i c g a)"
  shows "UpdateActivePane p t =
           Inr (t\<lparr>rootPane := SetActive p (ClearActive (rootPane t)),
                  activePane := p,
                  pending := pending t @ [UpdateTitle_resume],
                  trace := trace t @ [ActivePaneChanged]\<rparr>)"
proof -
  have "lookup p (SetActive p (ClearActive (rootPane t))) = Some (Leaf p c g True)"
    using assms by (rule lookup_active_again)
  then show ?thesis
    by (simp add: UpdateActivePane_def UpdateTitle_def resume_foreground_def
        GetActiveTerminalControl_def Let_def)
qed

lemma lookup_le_max: "lookup x T = Some n \<Longrightarrow> x \<le> max_ref T"
  by (rule ccontr) (simp add: lookup_above_max)

lemma SplitPane_leaf:
  assumes "lookup (activePane t) (rootPane t) = Some (Leaf i c g a)"
  shows "SplitPane splitType profile control t =
     Inr (t\<lparr>rootPane :=
              SetActive (Suc (Suc (max_ref (rootPane t))))
                (ClearActive
                   (split_leaf (activePane t) splitType profile control
                      (Suc (max_ref (rootPane t))) (Suc (Suc (max_ref (rootPane t))))
                      (rootPane t))),
            activePane := Suc (Suc (max_ref (rootPane t))),
            pending := pending t @ [UpdateTitle_resume],
            trace := trace t @ [ActivePaneChanged]\<rparr>)"
proof -
  let ?f = "Suc (max_ref (rootPane t))"
  let ?s = "Suc ?f"
  let ?tree = "split_leaf (activePane t) splitType profile control ?f ?s (rootPane t)"
  let ?t1 = "t\<lparr>rootPane := ?tree, activePane := ?f\<rparr>"
  have ps: "Pane_Split (activePane t) splitType profile control (rootPane t)
              = Inr (?tree, ?f, ?s)"
    using assms by (simp add: Pane_Split_def)
  have "lookup ?s (rootPane ?t1) = Some (Leaf ?s control profile False)"
    using lookup_split_leaf_fresh [OF assms, of ?f ?s splitType profile control] by simp
  from UpdateActivePane_leaf [OF this] ps show ?thesis
    by (simp add: SplitPane_def)
qed

text \<open>
  C2. \<^verbatim>\<open>_UpdateActivePane\<close> is called from two places. The \<^verbatim>\<open>GotFocus\<close> handler calls
  it only when the Tab is alive and the sender is not the active pane: when a leaf of
  the tree reports focus twice in succession, \<open>ActivePaneChanged\<close> is raised once if the
  leaf differs from the active pane and not at all if it is the active pane already,
  and the second report changes nothing. \<^verbatim>\<open>SplitPane\<close> calls it with the new second
  leaf, which differs from the pane that was active: the event is raised once, and a
  focus report of the new active pane raises nothing more.
\<close>
theorem ActivePaneChanged_once:
  assumes "lookup p (rootPane t) = Some (Leaf i c g a)"
  shows "(\<exists>t1. GotFocus_handler p t = Inr t1 \<and> GotFocus_handler p t1 = Inr t1 \<and>
            raised ActivePaneChanged t1 =
              raised ActivePaneChanged t + (if alive t \<and> p \<noteq> activePane t then 1 else 0)) \<and>
         (lookup (activePane t) (rootPane t) = Some (Leaf j d h b) \<longrightarrow>
            (\<exists>t'. SplitPane splitType profile control t = Inr t' \<and>
               activePane t' \<noteq> activePane t \<and>
               raised ActivePaneChanged t' = raised ActivePaneChanged t + 1 \<and>
               GotFocus_handler (activePane t') t' = Inr t'))"
proof (intro conjI impI)
  let ?t1 = "t\<lparr>rootPane := SetActive p (ClearActive (rootPane t)), activePane := p,
               pending := pending t @ [UpdateTitle_resume],
               trace := trace t @ [ActivePaneChanged]\<rparr>"
  have u: "UpdateActivePane p t = Inr ?t1"
    using assms by (rule UpdateActivePane_leaf)
  show "\<exists>t1. GotFocus_handler p t = Inr t1 \<and> GotFocus_handler p t1 = Inr t1 \<and>
            raised ActivePaneChanged t1 =
              raised ActivePaneChanged t + (if alive t \<and> p \<noteq> activePane t then 1 else 0)"
  proof (cases "alive t \<and> p \<noteq> activePane t")
    case True
    then have "GotFocus_handler p t = Inr ?t1" using u by (simp add: GotFocus_handler_def)
    moreover have "GotFocus_handler p ?t1 = Inr ?t1" by (simp add: GotFocus_handler_def)
    moreover have "raised ActivePaneChanged ?t1 = raised ActivePaneChanged t + 1"
      by (simp add: raised_def)
    ultimately show ?thesis using True by simp
  next
    case False
    then have "GotFocus_handler p t = Inr t" by (auto simp: GotFocus_handler_def)
    with False show ?thesis by auto
  qed
next
  assume act: "lookup (activePane t) (rootPane t) = Some (Leaf j d h b)"
  have le: "activePane t \<le> max_ref (rootPane t)" using act by (rule lookup_le_max)
  show "\<exists>t'. SplitPane splitType profile control t = Inr t' \<and>
               activePane t' \<noteq> activePane t \<and>
               raised ActivePaneChanged t' = raised ActivePaneChanged t + 1 \<and>
               GotFocus_handler (activePane t') t' = Inr t'"
    unfolding SplitPane_leaf [OF act] using le
    by (simp add: raised_def GotFocus_handler_def)
qed

theorem ActivePaneChanged_once_witness:
  "lookup 1 (rootPane split0) = Some (Leaf 1 0 7 False) \<and>
   lookup (activePane split0) (rootPane split0) = Some (Leaf 2 1 8 True) \<and>
   alive split0 \<and> activePane split0 = 2 \<and>
   raised ActivePaneChanged split0 = 1 \<and>
   (\<exists>t1. GotFocus_handler 1 split0 = Inr t1 \<and> GotFocus_handler 1 t1 = Inr t1 \<and>
      raised ActivePaneChanged t1 = 2) \<and>
   (\<exists>t'. SplitPane Horizontal 9 2 split0 = Inr t' \<and> activePane t' \<noteq> 2 \<and>
      raised ActivePaneChanged t' = 2 \<and> GotFocus_handler (activePane t') t' = Inr t')"
proof -
  have h: "lookup 1 (rootPane split0) = Some (Leaf 1 0 7 False)"
    "lookup (activePane split0) (rootPane split0) = Some (Leaf 2 1 8 True)"
    by (simp_all add: split0_def)
  have g: "alive split0" "activePane split0 = 2" "raised ActivePaneChanged split0 = 1"
    by (simp_all add: split0_def tab0_def Tab_ctor_def raised_def)
  from ActivePaneChanged_once [OF h(1), of 2 1 8 True Horizontal 9 2] h g show ?thesis by auto
qed

subsection \<open>Split\<close>

text \<open>
  C1, as stated, fails: on \<open>tab0\<close>, whose active pane is the leaf holding control 0,
  the split returns the leaves 1 (holding control 0) and 2 (holding the new control 1),
  and after \<^verbatim>\<open>SplitPane\<close> the active pane is leaf 2, the second one.
\<close>
theorem SplitPane_first_counterexample:
  "lookup (activePane tab0) (rootPane tab0) = Some (Leaf 0 0 7 True) \<and>
   Pane_Split (activePane tab0) Vertical 8 1 (rootPane tab0) =
     Inr (Parent 0 Vertical (1 / 2) (Leaf 1 0 7 True) (Leaf 2 1 8 False), 1, 2) \<and>
   SplitPane Vertical 8 1 tab0 = Inr split0 \<and>
   activePane split0 = 2 \<and>
   lookup (activePane split0) (rootPane split0) = Some (Leaf 2 1 8 True) \<and>
   lookup 1 (rootPane split0) = Some (Leaf 1 0 7 False)"
  by (simp add: SplitPane_def Pane_Split_def UpdateActivePane_def UpdateTitle_def
      resume_foreground_def GetActiveTerminalControl_def split0_def tab0_def Tab_ctor_def)

text \<open>
  C1, amended. When the active pane is a leaf, \<^verbatim>\<open>SplitPane\<close> succeeds, and afterwards
  the active pane is the second of the two leaves the split returned: the leaf holding
  the new control and profile, marked active. The first leaf, which holds the original
  session, is not marked active. \<open>ActivePaneChanged\<close> is raised once.
\<close>
theorem SplitPane_second_active:
  assumes "lookup (activePane t) (rootPane t) = Some (Leaf i c g a)"
  shows "\<exists>tree first second t'.
           Pane_Split (activePane t) splitType profile control (rootPane t)
             = Inr (tree, first, second) \<and>
           SplitPane splitType profile control t = Inr t' \<and>
           activePane t' = second \<and>
           second \<noteq> first \<and>
           lookup second (rootPane t') = Some (Leaf second control profile True) \<and>
           lookup first (rootPane t') = Some (Leaf first c g False) \<and>
           raised ActivePaneChanged t' = raised ActivePaneChanged t + 1"
proof -
  let ?f = "Suc (max_ref (rootPane t))"
  let ?s = "Suc ?f"
  let ?tree = "split_leaf (activePane t) splitType profile control ?f ?s (rootPane t)"
  let ?t1 = "t\<lparr>rootPane := ?tree, activePane := ?f\<rparr>"
  let ?t' = "?t1\<lparr>rootPane := SetActive ?s (ClearActive ?tree), activePane := ?s,
                pending := pending t @ [UpdateTitle_resume],
                trace := trace t @ [ActivePaneChanged]\<rparr>"
  have ps: "Pane_Split (activePane t) splitType profile control (rootPane t)
              = Inr (?tree, ?f, ?s)"
    using assms by (simp add: Pane_Split_def)
  have fresh: "lookup ?f ?tree = Some (Leaf ?f c g a)"
    "lookup ?s ?tree = Some (Leaf ?s control profile False)"
    using lookup_split_leaf_fresh [OF assms, of ?f ?s splitType profile control] by simp_all
  have "lookup ?s (rootPane ?t1) = Some (Leaf ?s control profile False)"
    using fresh(2) by simp
  from UpdateActivePane_leaf [OF this] have ua: "UpdateActivePane ?s ?t1 = Inr ?t'"
    by simp
  have sp: "SplitPane splitType profile control t = Inr ?t'"
    using ps ua by (simp add: SplitPane_def)
  have l2: "lookup ?s (rootPane ?t') = Some (Leaf ?s control profile True)"
    using fresh(2) by (simp add: lookup_SetActive lookup_ClearActive)
  have l1: "lookup ?f (rootPane ?t') = Some (Leaf ?f c g False)"
    using fresh(1) by (simp add: lookup_SetActive lookup_ClearActive)
  have r: "raised ActivePaneChanged ?t' = raised ActivePaneChanged t + 1"
    by (simp add: raised_def)
  have a: "activePane ?t' = ?s" "?s \<noteq> ?f" by simp_all
  from ps sp a l2 l1 r show ?thesis by blast
qed

theorem SplitPane_second_active_witness:
  "lookup (activePane tab0) (rootPane tab0) = Some (Leaf 0 0 7 True) \<and>
   (\<exists>tree first second t'.
           Pane_Split (activePane tab0) Horizontal 8 1 (rootPane tab0)
             = Inr (tree, first, second) \<and>
           SplitPane Horizontal 8 1 tab0 = Inr t' \<and>
           activePane t' = second \<and>
           second \<noteq> first \<and>
           lookup second (rootPane t') = Some (Leaf second 1 8 True) \<and>
           lookup first (rootPane t') = Some (Leaf first 0 7 False))"
proof -
  have h: "lookup (activePane tab0) (rootPane tab0) = Some (Leaf 0 0 7 True)"
    by (simp add: tab0_def Tab_ctor_def)
  from SplitPane_second_active [OF h, of Horizontal 8 1] h show ?thesis by blast
qed

end
